theory Spec2Isabelle
  imports
    Complex_Main
    "HOL-Library.Multiset"
    "HOL-Library.Log_Nat"
    "HOL-Library.Char_ord"
    "HOL-Library.List_Lexorder"
    "HOL-Library.Product_Lexorder"
begin

section \<open>Data model of \<open>streamlit_app.py\<close>\<close>

text \<open>
  The script reads \<open>data_clean.csv\<close> into a pandas DataFrame, filters it by four sidebar
  widgets and aggregates the filtered frame. A DataFrame is modelled as the list of its
  rows, in index order; each row is a record of the columns the script reads.

  Strings are compared as Python compares \<open>str\<close>: lexicographically, character by
  character (\<open>List_Lexorder\<close> over \<open>Char_ord\<close>). Tuples are compared lexicographically
  (\<open>Product_Lexorder\<close>), as pandas orders the keys of a multi-column \<open>groupby\<close>.

  A \<open>datetime.date\<close> is the triple (year, month, day). A pandas \<open>Timestamp\<close> is a date
  together with the nanoseconds elapsed since midnight of that date; the lexicographic
  order of the pair is the chronological order.

  A numeric cell is given by its exact value, a rational number. The arithmetic on the
  cells is that of the dtype \<open>pd.read_csv\<close> gave the column: \<open>float64\<close>, where every
  result is rounded to the nearest double, or \<open>int64\<close>, where a sum wraps around at 64
  bits. Infinite and \<open>NaN\<close> cells and overflow to infinity are not modelled: the file
  is the cleaned data set and its amounts are far below the largest double.
\<close>

type_synonym date = "nat \<times> nat \<times> nat"

type_synonym timestamp = "date \<times> nat"

type_synonym period = "nat \<times> nat"

text \<open>The value of a float cell or scalar: a number, or pandas' \<open>NaN\<close>.\<close>

datatype float = Float rat | NaN

datatype error = IndexError | ValueError

text \<open>A row of the file as \<open>pd.read_csv\<close> delivers it: the invoice date is still text.\<close>

record csv_row =
  csv_State :: string
  csv_Retailer :: string
  csv_Sales_Method :: string
  csv_Product :: string
  csv_Invoice_Date :: string
  csv_Total_Sales :: rat
  csv_Operating_Profit :: rat
  csv_Operating_Margin :: rat

text \<open>A row of \<open>df\<close> after \<open>load_data\<close>: the date is parsed and \<open>Month\<close> is added.\<close>

record row =
  State :: string
  Retailer :: string
  Sales_Method :: string
  Product :: string
  Invoice_Date :: timestamp
  Total_Sales :: rat
  Operating_Profit :: rat
  Operating_Margin :: rat
  Month :: timestamp

type_synonym frame = "row list"

text \<open>
  The values of the four sidebar widgets: the selectbox gives one string, each multiselect
  a list of strings, and \<open>st.date_input\<close> with a list default gives a tuple of zero, one
  or two \<open>datetime.date\<close> values (one while the user has picked only the start).
\<close>

record selection =
  selected_state :: string
  selected_retailers :: "string list"
  selected_methods :: "string list"
  date_range :: "date list"

section \<open>pandas primitives used by the script\<close>

text \<open>\<open>pd.to_datetime\<close> of a \<open>datetime.date\<close>: midnight of that date.\<close>

definition to_datetime :: "date \<Rightarrow> timestamp" where
  "to_datetime d = (d, 0)"

text \<open>\<open>.dt.to_period("M")\<close>: the calendar month the timestamp lies in.\<close>

definition to_period_M :: "timestamp \<Rightarrow> period" where
  "to_period_M t = (case t of ((y, m, d), ns) \<Rightarrow> (y, m))"

text \<open>\<open>.dt.to_timestamp()\<close> of a monthly period: the start of the period.\<close>

definition to_timestamp :: "period \<Rightarrow> timestamp" where
  "to_timestamp p = (case p of (y, m) \<Rightarrow> ((y, m, 1), 0))"

text \<open>\<open>Series.isin(values)\<close>, for one cell.\<close>

definition isin :: "'a \<Rightarrow> 'a list \<Rightarrow> bool" where
  "isin x vs = (x \<in> set vs)"

text \<open>
  \<open>Series.unique()\<close>: the distinct values in order of first appearance. \<open>seen\<close> holds
  the values found so far, newest first.
\<close>

fun unique_acc :: "'a list \<Rightarrow> 'a list \<Rightarrow> 'a list" where
  "unique_acc seen [] = rev seen"
| "unique_acc seen (x # xs) =
     (if x \<in> set seen then unique_acc seen xs else unique_acc (x # seen) xs)"

definition unique :: "'a list \<Rightarrow> 'a list" where
  "unique xs = unique_acc [] xs"

text \<open>Python's \<open>tuple[i]\<close> for a non-negative index: \<open>IndexError\<close> out of range.\<close>

definition getitem :: "'a list \<Rightarrow> nat \<Rightarrow> error + 'a" where
  "getitem xs i = (if i < length xs then Inr (xs ! i) else Inl IndexError)"

section \<open>Apply filters (lines 52 to 60)\<close>

text \<open>
  The value computed by the block: each boolean-mask indexing keeps the rows whose mask
  is true, in order. The date mask reads \<open>date_range[0]\<close> and then \<open>date_range[1]\<close>.
\<close>

definition filtered :: "frame \<Rightarrow> selection \<Rightarrow> error + frame" where
  "filtered df S =
    (let f0 = df;
         f1 = (if selected_state S \<noteq> ''All''
               then filter (\<lambda>r. State r = selected_state S) f0 else f0);
         f2 = filter (\<lambda>r. isin (Retailer r) (selected_retailers S)) f1;
         f3 = filter (\<lambda>r. isin (Sales_Method r) (selected_methods S)) f2
     in case getitem (date_range S) 0 of
          Inl e \<Rightarrow> Inl e
        | Inr d0 \<Rightarrow>
            (case getitem (date_range S) 1 of
               Inl e \<Rightarrow> Inl e
             | Inr d1 \<Rightarrow>
                 Inr (filter (\<lambda>r. Invoice_Date r \<ge> to_datetime d0
                                 \<and> Invoice_Date r \<le> to_datetime d1) f3)))"

text \<open>
  The same block on objects. A DataFrame object lives at an address of the heap; a
  variable holds an address. \<open>df.copy()\<close> and \<open>frame[mask]\<close> each build a new object
  and the assignment rebinds the variable \<open>filtered\<close> to it. The block returns the
  address bound to \<open>filtered\<close>, or the exception, together with the heap it leaves.
  A variable is never dangling, so \<open>a < length h\<close> for every address \<open>a\<close> read.
\<close>

type_synonym heap = "frame list"

definition new_frame :: "frame \<Rightarrow> heap \<Rightarrow> nat \<times> heap" where
  "new_frame f h = (length h, h @ [f])"

definition copy :: "nat \<Rightarrow> heap \<Rightarrow> nat \<times> heap" where
  "copy a h = new_frame (h ! a) h"

definition getitem_mask :: "(row \<Rightarrow> bool) \<Rightarrow> nat \<Rightarrow> heap \<Rightarrow> nat \<times> heap" where
  "getitem_mask m a h = new_frame (filter m (h ! a)) h"

definition apply_filters :: "selection \<Rightarrow> nat \<Rightarrow> heap \<Rightarrow> (error + nat) \<times> heap" where
  "apply_filters S df h0 =
    (let (a0, h1) = copy df h0;
         (a1, h2) = (if selected_state S \<noteq> ''All''
                     then getitem_mask (\<lambda>r. State r = selected_state S) a0 h1
                     else (a0, h1));
         (a2, h3) = getitem_mask (\<lambda>r. isin (Retailer r) (selected_retailers S)) a1 h2;
         (a3, h4) = getitem_mask (\<lambda>r. isin (Sales_Method r) (selected_methods S)) a2 h3
     in case getitem (date_range S) 0 of
          Inl e \<Rightarrow> (Inl e, h4)
        | Inr d0 \<Rightarrow>
            (case getitem (date_range S) 1 of
               Inl e \<Rightarrow> (Inl e, h4)
             | Inr d1 \<Rightarrow>
                 (let (a4, h5) = getitem_mask (\<lambda>r. Invoice_Date r \<ge> to_datetime d0
                                                  \<and> Invoice_Date r \<le> to_datetime d1) a3 h4
                  in (Inr a4, h5))))"

text \<open>The frame the block leaves in \<open>filtered\<close>, read from the final heap.\<close>

definition result_frame :: "(error + nat) \<times> heap \<Rightarrow> error + frame" where
  "result_frame res = (case res of (Inl e, h) \<Rightarrow> Inl e | (Inr a, h) \<Rightarrow> Inr (h ! a))"

section \<open>Load data (lines 22 to 26)\<close>

text \<open>
  \<open>pd.to_datetime\<close> on the text column parses every cell and raises when one cannot be
  parsed. The parser itself is pandas' and is a parameter here: \<open>parse s\<close> is the
  timestamp read from \<open>s\<close>, or \<open>None\<close> when pandas rejects \<open>s\<close>. Missing cells are
  not modelled: the file is the cleaned data set.
\<close>

definition month_of :: "timestamp \<Rightarrow> timestamp" where
  "month_of t = to_timestamp (to_period_M t)"

definition mk_row :: "csv_row \<Rightarrow> timestamp \<Rightarrow> row" where
  "mk_row c t =
    \<lparr>State = csv_State c, Retailer = csv_Retailer c, Sales_Method = csv_Sales_Method c,
     Product = csv_Product c, Invoice_Date = t, Total_Sales = csv_Total_Sales c,
     Operating_Profit = csv_Operating_Profit c, Operating_Margin = csv_Operating_Margin c,
     Month = month_of t\<rparr>"

fun load_data :: "(string \<Rightarrow> timestamp option) \<Rightarrow> csv_row list \<Rightarrow> error + frame" where
  "load_data parse [] = Inr []"
| "load_data parse (c # cs) =
     (case parse (csv_Invoice_Date c) of
        None \<Rightarrow> Inl ValueError
      | Some t \<Rightarrow>
          (case load_data parse cs of
             Inl e \<Rightarrow> Inl e
           | Inr rs \<Rightarrow> Inr (mk_row c t # rs)))"

section \<open>Sidebar options (lines 36 to 48)\<close>

text \<open>Python's \<open>sorted\<close> on a list of strings is \<open>sort\<close> in the order above.\<close>

definition states :: "frame \<Rightarrow> string list" where
  "states df = [''All''] @ sort (unique (map State df))"

definition retailers :: "frame \<Rightarrow> string list" where
  "retailers df = sort (unique (map Retailer df))"

definition methods :: "frame \<Rightarrow> string list" where
  "methods df = sort (unique (map Sales_Method df))"

text \<open>\<open>Series.min()\<close> and \<open>Series.max()\<close>; \<open>None\<close> is the \<open>NaT\<close> of an empty column.\<close>

definition series_min :: "'a::linorder list \<Rightarrow> 'a option" where
  "series_min xs = (case xs of [] \<Rightarrow> None | x # ys \<Rightarrow> Some (fold min ys x))"

definition series_max :: "'a::linorder list \<Rightarrow> 'a option" where
  "series_max xs = (case xs of [] \<Rightarrow> None | x # ys \<Rightarrow> Some (fold max ys x))"

definition min_date :: "frame \<Rightarrow> timestamp option" where
  "min_date df = series_min (map Invoice_Date df)"

definition max_date :: "frame \<Rightarrow> timestamp option" where
  "max_date df = series_max (map Invoice_Date df)"

text \<open>
  \<open>st.date_input\<close> is given the two timestamps as its default (line 49) and holds
  \<open>datetime.date\<close> values: of a timestamp it keeps the calendar date.
\<close>

definition date_of :: "timestamp \<Rightarrow> date" where
  "date_of t = fst t"

section \<open>Arithmetic of the numeric columns\<close>

datatype dtype = int64 | float64

text \<open>
  IEEE 754 binary64, round to nearest, ties to even. A double is an integer of at most 53
  bits times a power of two, the exponent of the power at least \<open>- 1074\<close>. \<open>ilog2 q\<close>
  is the integer part of the binary logarithm of a positive \<open>q\<close>: with \<open>d\<close> the
  difference of the bit lengths of numerator and denominator it is \<open>d\<close> or \<open>d - 1\<close>.
  \<open>round64 q\<close> is the double nearest to \<open>q\<close>.
\<close>

definition round_half_even :: "rat \<Rightarrow> int" where
  "round_half_even q =
    (let n = \<lfloor>q\<rfloor>; r = q - of_int n
     in if r < 1 / 2 then n else if 1 / 2 < r then n + 1 else if even n then n else n + 1)"

definition ilog2 :: "rat \<Rightarrow> int" where
  "ilog2 q =
    (case quotient_of q of (a, b) \<Rightarrow>
       let d = bitlen a - bitlen b in if power_int 2 d \<le> q then d else d - 1)"

definition ulp_exponent :: "rat \<Rightarrow> int" where
  "ulp_exponent q = max (ilog2 \<bar>q\<bar> - 52) (- 1074)"

definition round64 :: "rat \<Rightarrow> rat" where
  "round64 q =
    (if q = 0 then 0
     else let e = ulp_exponent q
          in of_int (round_half_even (q / power_int 2 e)) * power_int 2 e)"

definition fadd :: "rat \<Rightarrow> rat \<Rightarrow> rat" where
  "fadd x y = round64 (x + y)"

definition fmul :: "rat \<Rightarrow> rat \<Rightarrow> rat" where
  "fmul x y = round64 (x * y)"

definition fdiv :: "rat \<Rightarrow> rat \<Rightarrow> rat" where
  "fdiv x y = round64 (x / y)"

text \<open>Two's complement wrap-around of a whole number to 64 bits.\<close>

definition wrap64 :: "rat \<Rightarrow> rat" where
  "wrap64 q = of_int ((\<lfloor>q\<rfloor> + 2 ^ 63) mod 2 ^ 64 - 2 ^ 63)"

section \<open>KPI metrics (lines 67 to 69)\<close>

text \<open>
  \<open>Series.sum()\<close> adds the cells of the column in the arithmetic of its dtype, here one
  after the other in index order, and is 0 on an empty column. (The library may add a
  long column in another order; that changes which additions round, not the properties
  below.) \<open>Series.mean()\<close> converts the cells to doubles, adds them and divides by
  their number in float64; it is \<open>NaN\<close> on an empty column.
\<close>

definition series_sum :: "dtype \<Rightarrow> rat list \<Rightarrow> rat" where
  "series_sum dt xs =
    (case dt of float64 \<Rightarrow> foldl fadd 0 xs | int64 \<Rightarrow> wrap64 (sum_list xs))"

definition series_mean :: "rat list \<Rightarrow> float" where
  "series_mean xs =
    (if xs = [] then NaN
     else Float (fdiv (series_sum float64 (map round64 xs)) (of_nat (length xs))))"

fun float_mul :: "float \<Rightarrow> rat \<Rightarrow> float" where
  "float_mul NaN c = NaN"
| "float_mul (Float x) c = Float (fmul x c)"

text \<open>
  In the aggregates of a summed column, \<open>dt\<close> is the dtype of that column; every frame
  derived from \<open>df\<close> keeps it.
\<close>

definition total_sales :: "dtype \<Rightarrow> frame \<Rightarrow> rat" where
  "total_sales dt f = series_sum dt (map Total_Sales f)"

definition total_profit :: "dtype \<Rightarrow> frame \<Rightarrow> rat" where
  "total_profit dt f = series_sum dt (map Operating_Profit f)"

definition avg_margin :: "frame \<Rightarrow> float" where
  "avg_margin f = float_mul (series_mean (map Operating_Margin f)) 100"

section \<open>Grouped summaries (lines 99, 111, 119 and 132)\<close>

text \<open>
  \<open>frame.groupby(keys)\<close> with the defaults: one group per key value that occurs, the
  groups in ascending key order (\<open>sort=True\<close>), each group holding the rows with that
  key in frame order. \<open>[column].sum().reset_index()\<close> then gives one output row per
  group: the key and the aggregate of the column over the group, the cells of the group
  added as those of a column are.
\<close>

definition groupby :: "(row \<Rightarrow> 'k::linorder) \<Rightarrow> frame \<Rightarrow> ('k \<times> frame) list" where
  "groupby key f = map (\<lambda>k. (k, filter (\<lambda>r. key r = k) f)) (sort (unique (map key f)))"

definition sales_method :: "dtype \<Rightarrow> frame \<Rightarrow> (string \<times> rat) list" where
  "sales_method dt f =
     map (\<lambda>(k, g). (k, series_sum dt (map Total_Sales g))) (groupby Sales_Method f)"

definition monthly_sales :: "dtype \<Rightarrow> frame \<Rightarrow> (timestamp \<times> string \<times> rat) list" where
  "monthly_sales dt f =
     map (\<lambda>((m, c), g). (m, c, series_sum dt (map Total_Sales g)))
       (groupby (\<lambda>r. (Month r, Sales_Method r)) f)"

definition margin :: "frame \<Rightarrow> (string \<times> float) list" where
  "margin f =
     map (\<lambda>(k, g). (k, series_mean (map Operating_Margin g))) (groupby Sales_Method f)"

definition product_sales :: "dtype \<Rightarrow> frame \<Rightarrow> (string \<times> string \<times> rat) list" where
  "product_sales dt f =
     map (\<lambda>((p, c), g). (p, c, series_sum dt (map Total_Sales g)))
       (groupby (\<lambda>r. (Product r, Sales_Method r)) f)"

section \<open>A small data set\<close>

text \<open>
  Three invoices, two in January 2021 and one in February, over two sales methods; the
  file rows they are loaded from; a parser that knows the three dates; and widget values.
\<close>

definition ex_csv :: "csv_row list" where
  "ex_csv =
    [\<lparr>csv_State = ''Texas'', csv_Retailer = ''Walmart'', csv_Sales_Method = ''Online'',
      csv_Product = ''Shoes'', csv_Invoice_Date = ''2021-01-15'', csv_Total_Sales = 100,
      csv_Operating_Profit = 25, csv_Operating_Margin = 1 / 4\<rparr>,
     \<lparr>csv_State = ''Alabama'', csv_Retailer = ''Amazon'', csv_Sales_Method = ''Outlet'',
      csv_Product = ''Shoes'', csv_Invoice_Date = ''2021-01-20'', csv_Total_Sales = 50,
      csv_Operating_Profit = 25, csv_Operating_Margin = 1 / 2\<rparr>,
     \<lparr>csv_State = ''Texas'', csv_Retailer = ''Amazon'', csv_Sales_Method = ''Online'',
      csv_Product = ''Shirts'', csv_Invoice_Date = ''2021-02-10'', csv_Total_Sales = 200,
      csv_Operating_Profit = 50, csv_Operating_Margin = 1 / 4\<rparr>]"

definition ex_parse :: "string \<Rightarrow> timestamp option" where
  "ex_parse = map_of
    [(''2021-01-15'', ((2021, 1, 15), 0)),
     (''2021-01-20'', ((2021, 1, 20), 0)),
     (''2021-02-10'', ((2021, 2, 10), 0))]"

definition ex_row1 :: row where
  "ex_row1 =
    \<lparr>State = ''Texas'', Retailer = ''Walmart'', Sales_Method = ''Online'',
     Product = ''Shoes'', Invoice_Date = ((2021, 1, 15), 0), Total_Sales = 100,
     Operating_Profit = 25, Operating_Margin = 1 / 4, Month = ((2021, 1, 1), 0)\<rparr>"

definition ex_row2 :: row where
  "ex_row2 =
    \<lparr>State = ''Alabama'', Retailer = ''Amazon'', Sales_Method = ''Outlet'',
     Product = ''Shoes'', Invoice_Date = ((2021, 1, 20), 0), Total_Sales = 50,
     Operating_Profit = 25, Operating_Margin = 1 / 2, Month = ((2021, 1, 1), 0)\<rparr>"

definition ex_row3 :: row where
  "ex_row3 =
    \<lparr>State = ''Texas'', Retailer = ''Amazon'', Sales_Method = ''Online'',
     Product = ''Shirts'', Invoice_Date = ((2021, 2, 10), 0), Total_Sales = 200,
     Operating_Profit = 50, Operating_Margin = 1 / 4, Month = ((2021, 2, 1), 0)\<rparr>"

definition ex_df :: frame where
  "ex_df = [ex_row1, ex_row2, ex_row3]"

text \<open>All states, both retailers, only the outlet method, the whole of January.\<close>

definition ex_outlet_january :: selection where
  "ex_outlet_january =
    \<lparr>selected_state = ''All'', selected_retailers = [''Amazon'', ''Walmart''],
     selected_methods = [''Outlet''], date_range = [(2021, 1, 1), (2021, 1, 31)]\<rparr>"

text \<open>The widget defaults for \<open>ex_df\<close>: everything selected.\<close>

definition ex_defaults :: selection where
  "ex_defaults =
    \<lparr>selected_state = ''All'', selected_retailers = [''Amazon'', ''Walmart''],
     selected_methods = [''Online'', ''Outlet''], date_range = [(2021, 1, 15), (2021, 2, 10)]\<rparr>"

text \<open>No retailer ticked.\<close>

definition ex_no_retailer :: selection where
  "ex_no_retailer =
    \<lparr>selected_state = ''All'', selected_retailers = [],
     selected_methods = [''Online'', ''Outlet''], date_range = [(2021, 1, 15), (2021, 2, 10)]\<rparr>"

text \<open>The two dates in the wrong order.\<close>

definition ex_inverted :: selection where
  "ex_inverted =
    \<lparr>selected_state = ''All'', selected_retailers = [''Amazon'', ''Walmart''],
     selected_methods = [''Online'', ''Outlet''], date_range = [(2021, 2, 10), (2021, 1, 15)]\<rparr>"

text \<open>The same three invoices, the last one a nanosecond after midnight.\<close>

definition td_row3 :: row where
  "td_row3 = ex_row3\<lparr>Invoice_Date := ((2021, 2, 10), 1)\<rparr>"

definition td_df :: frame where
  "td_df = [ex_row1, ex_row2, td_row3]"

text \<open>
  The same three invoices with the amounts 315.45, 118.9 and 722.27, each as the double
  read from that text.
\<close>

definition fp_row1 :: row where
  "fp_row1 = ex_row1\<lparr>Total_Sales := round64 (31545 / 100)\<rparr>"

definition fp_row2 :: row where
  "fp_row2 = ex_row2\<lparr>Total_Sales := round64 (1189 / 10)\<rparr>"

definition fp_row3 :: row where
  "fp_row3 = ex_row3\<lparr>Total_Sales := round64 (72227 / 100)\<rparr>"

definition fp_df :: frame where
  "fp_df = [fp_row1, fp_row2, fp_row3]"

section \<open>Properties\<close>

subsection \<open>Distinct values\<close>

lemma set_unique_acc: "set (unique_acc seen xs) = set seen \<union> set xs"
  by (induction xs arbitrary: seen) auto

lemma distinct_unique_acc: "distinct seen \<Longrightarrow> distinct (unique_acc seen xs)"
  by (induction xs arbitrary: seen) auto

lemma set_unique: "set (unique xs) = set xs"
  by (simp add: unique_def set_unique_acc)

lemma distinct_unique: "distinct (unique xs)"
  by (simp add: unique_def distinct_unique_acc)

subsection \<open>Groups\<close>

lemma groupby_keys: "map fst (groupby key f) = sort (unique (map key f))"
  by (simp add: groupby_def comp_def)

lemma groupby_groups:
  "map snd (groupby key f) = map (\<lambda>k. filter (\<lambda>r. key r = k) f) (sort (unique (map key f)))"
  by (simp add: groupby_def comp_def)

lemma sum_list_single_key:
  "distinct ks \<Longrightarrow>
   (\<Sum>k\<leftarrow>ks. (if x = k then a else ({#} :: 'a multiset))) = (if x \<in> set ks then a else {#})"
  by (induction ks) auto

lemma mset_partition_by_key:
  "distinct ks \<Longrightarrow> key ` set f \<subseteq> set ks \<Longrightarrow>
   (\<Sum>k\<leftarrow>ks. mset (filter (\<lambda>r. key r = k) f)) = mset f"
proof (induction f)
  case Nil
  then show ?case by (induction ks) auto
next
  case (Cons r f)
  have one: "(\<Sum>k\<leftarrow>ks. (if key r = k then {#r#} else {#})) = {#r#}"
    using Cons.prems by (simp add: sum_list_single_key)
  have "(\<Sum>k\<leftarrow>ks. mset (filter (\<lambda>x. key x = k) (r # f)))
      = (\<Sum>k\<leftarrow>ks. (if key r = k then {#r#} else {#}) + mset (filter (\<lambda>x. key x = k) f))"
    by (rule arg_cong [where f = sum_list]) auto
  also have "\<dots> = {#r#} + mset f"
    using Cons by (simp add: sum_list_addf one)
  finally show ?case by simp
qed

lemma groupby_partition: "mset (concat (map snd (groupby key f))) = mset f"
  by (simp add: groupby_groups mset_concat comp_def mset_partition_by_key distinct_unique
      set_unique del: mset_filter)

lemma sum_list_groups:
  "(\<Sum>(k, g)\<leftarrow>gs. sum_list (map v g)) = sum_list (map v (concat (map snd gs)))"
  by (induction gs) auto

lemma groupby_sum:
  fixes v :: "row \<Rightarrow> rat"
  shows "(\<Sum>(k, g)\<leftarrow>groupby key f. sum_list (map v g)) = sum_list (map v f)"
proof -
  have "(\<Sum>(k, g)\<leftarrow>groupby key f. sum_list (map v g))
      = sum_list (map v (concat (map snd (groupby key f))))"
    by (rule sum_list_groups)
  also have "\<dots> = sum_mset (image_mset v (mset (concat (map snd (groupby key f)))))"
    by (metis mset_map sum_mset_sum_list)
  finally show ?thesis by (simp add: groupby_partition sum_mset_sum_list flip: mset_map)
qed

subsection \<open>The filter\<close>

lemma filtered_two_dates:
  "date_range S = [s, e] \<Longrightarrow>
   filtered df S =
     Inr (filter (\<lambda>r. (selected_state S = ''All'' \<or> State r = selected_state S)
                     \<and> Retailer r \<in> set (selected_retailers S)
                     \<and> Sales_Method r \<in> set (selected_methods S)
                     \<and> to_datetime s \<le> Invoice_Date r
                     \<and> Invoice_Date r \<le> to_datetime e) df)"
  by (auto simp: filtered_def getitem_def isin_def Let_def intro: filter_cong)



text \<open>
  C4. When the date widget holds two dates and the first is after the second, the block
  returns the empty frame; it does not raise.
\<close>

theorem inverted_interval_empty:
  "date_range S = [s, e] \<Longrightarrow> e < s \<Longrightarrow> filtered df S = Inr []"
proof -
  assume d: "date_range S = [s, e]" and inv: "e < s"
  have "\<not> (to_datetime s \<le> t \<and> t \<le> to_datetime e)" for t
  proof
    assume "to_datetime s \<le> t \<and> t \<le> to_datetime e"
    then have "to_datetime s \<le> to_datetime e" by (metis order_trans)
    then have "s \<le> e" by (auto simp: to_datetime_def)
    with inv show False by (simp add: leD)
  qed
  then show ?thesis by (simp add: filtered_two_dates [OF d])
qed

theorem inverted_interval_empty_witness:
  "date_range ex_inverted = [(2021, 2, 10), (2021, 1, 15)]
   \<and> ((2021, 1, 15) :: date) < (2021, 2, 10)
   \<and> filtered ex_df ex_inverted = Inr []"
proof -
  have d: "date_range ex_inverted = [(2021, 2, 10), (2021, 1, 15)]"
    by (simp add: ex_inverted_def)
  have l: "((2021, 1, 15) :: date) < (2021, 2, 10)" by simp
  show ?thesis using d l inverted_interval_empty [OF d l, of ex_df] by simp
qed

text \<open>
  C3. When no retailer is ticked (and the date widget holds two dates) the filtered
  frame is empty. On an empty filtered frame the total sales and the total profit are 0
  and the average margin is \<open>NaN\<close>: a value of its own, different from the number 0,
  and computed without raising.
\<close>

theorem empty_subset_kpis:
  "(date_range S = [s, e] \<longrightarrow> selected_retailers S = [] \<longrightarrow> filtered df S = Inr [])
   \<and> (filtered df S = Inr f \<longrightarrow> f = [] \<longrightarrow>
        total_sales dt f = 0 \<and> total_profit dt f = 0
        \<and> avg_margin f = NaN \<and> avg_margin f \<noteq> Float 0)"
  by (simp add: filtered_two_dates total_sales_def total_profit_def avg_margin_def
      series_sum_def series_mean_def wrap64_def split: dtype.split)

theorem empty_subset_kpis_witness:
  "date_range ex_no_retailer = [(2021, 1, 15), (2021, 2, 10)]
   \<and> selected_retailers ex_no_retailer = []
   \<and> filtered ex_df ex_no_retailer = Inr []
   \<and> total_sales float64 [] = 0 \<and> total_profit float64 [] = 0
   \<and> avg_margin [] = NaN \<and> avg_margin [] \<noteq> Float 0"
proof -
  have d: "date_range ex_no_retailer = [(2021, 1, 15), (2021, 2, 10)]"
    and r: "selected_retailers ex_no_retailer = []"
    by (simp_all add: ex_no_retailer_def)
  show ?thesis
    using d r
      empty_subset_kpis [of ex_no_retailer "(2021, 1, 15)" "(2021, 2, 10)" ex_df "[]" float64]
    by simp
qed

subsection \<open>Grouped summaries\<close>

lemma groupby_iff:
  "(k, g) \<in> set (groupby key f) \<longleftrightarrow> k \<in> key ` set f \<and> g = filter (\<lambda>r. key r = k) f"
  by (auto simp: groupby_def set_unique)

lemma groupby_distinct: "distinct (map fst (groupby key f))"
  by (simp add: groupby_keys distinct_unique)

lemma sorted_keys: "sorted_wrt (<) (map fst (groupby key f))"
  by (simp add: groupby_keys strict_sorted_iff distinct_unique)

lemma pair_less_iff:
  fixes a c :: "'a::linorder" and b d :: "'b::linorder"
  shows "(a, b) < (c, d) \<longleftrightarrow> a < c \<or> (a = c \<and> b < d)"
  by auto

lemma pair_key_rows_iff:
  "(a, b, v) \<in> set (map (\<lambda>((a, b), g). (a, b, agg g)) gs)
   \<longleftrightarrow> (\<exists>g. ((a, b), g) \<in> set gs \<and> v = agg g)"
  by (induction gs) auto

lemma sales_method_iff:
  "(k, v) \<in> set (sales_method dt f) \<longleftrightarrow>
     k \<in> Sales_Method ` set f
   \<and> v = series_sum dt (map Total_Sales (filter (\<lambda>r. Sales_Method r = k) f))"
  unfolding sales_method_def by (auto simp: groupby_iff)

lemma margin_iff:
  "(k, v) \<in> set (margin f) \<longleftrightarrow>
     k \<in> Sales_Method ` set f
   \<and> v = series_mean (map Operating_Margin (filter (\<lambda>r. Sales_Method r = k) f))"
  unfolding margin_def by (auto simp: groupby_iff)

lemma monthly_sales_iff:
  "(m, c, v) \<in> set (monthly_sales dt f) \<longleftrightarrow>
     (m, c) \<in> (\<lambda>r. (Month r, Sales_Method r)) ` set f
   \<and> v = series_sum dt (map Total_Sales (filter (\<lambda>r. (Month r, Sales_Method r) = (m, c)) f))"
  unfolding monthly_sales_def pair_key_rows_iff groupby_iff by blast

lemma product_sales_iff:
  "(p, c, v) \<in> set (product_sales dt f) \<longleftrightarrow>
     (p, c) \<in> (\<lambda>r. (Product r, Sales_Method r)) ` set f
   \<and> v = series_sum dt (map Total_Sales (filter (\<lambda>r. (Product r, Sales_Method r) = (p, c)) f))"
  unfolding product_sales_def pair_key_rows_iff groupby_iff by blast

lemma sales_method_keys: "map fst (sales_method dt f) = map fst (groupby Sales_Method f)"
  by (simp add: sales_method_def comp_def case_prod_unfold)

lemma margin_keys: "map fst (margin f) = map fst (groupby Sales_Method f)"
  by (simp add: margin_def comp_def case_prod_unfold)

lemma monthly_sales_keys:
  "map (\<lambda>(m, c, v). (m, c)) (monthly_sales dt f)
   = map fst (groupby (\<lambda>r. (Month r, Sales_Method r)) f)"
  by (simp add: monthly_sales_def comp_def case_prod_unfold)

lemma product_sales_keys:
  "map (\<lambda>(p, c, v). (p, c)) (product_sales dt f)
   = map fst (groupby (\<lambda>r. (Product r, Sales_Method r)) f)"
  by (simp add: product_sales_def comp_def case_prod_unfold)

subsection \<open>Sums that do not round\<close>

text \<open>
  The rounding on known values: one tenth, the two ties around \<open>2 ^ 53\<close>, which go
  to the even neighbour, and a negative number.
\<close>

lemma round64_examples:
  "round64 (1 / 10) = 3602879701896397 / 36028797018963968"
  "round64 (2 ^ 53 + 1) = 2 ^ 53"
  "round64 (2 ^ 53 + 3) = 2 ^ 53 + 4"
  "round64 (- (1 / 3)) = - round64 (1 / 3)"
  by code_simp+

lemma round_half_even_of_int: "round_half_even (of_int k) = k"
  by (simp add: round_half_even_def)

lemma bitlen_1: "bitlen 1 = 1"
  by (simp add: bitlen_alt_def)

lemma bitlen_le_53:
  assumes "0 < z" "z < 2 ^ 53"
  shows "bitlen z \<le> 53"
proof (rule ccontr)
  assume "\<not> bitlen z \<le> 53"
  then have "53 \<le> nat (bitlen z - 1)" by simp
  then have "(2::int) ^ 53 \<le> 2 ^ nat (bitlen z - 1)"
    by (rule power_increasing) simp
  also have "\<dots> \<le> z" using bitlen_bounds [OF assms(1)] by simp
  finally show False using assms(2) by simp
qed

lemma ilog2_of_int_le:
  assumes "0 < z" "z < 2 ^ 53"
  shows "ilog2 (of_int z) \<le> 52"
proof -
  have "bitlen z \<le> 53" using assms by (rule bitlen_le_53)
  then show ?thesis
    by (simp add: ilog2_def Let_def bitlen_1)
qed

lemma round64_of_int:
  assumes "\<bar>z\<bar> < 2 ^ 53"
  shows "round64 (of_int z) = of_int z"
proof (cases "z = 0")
  case True
  then show ?thesis by (simp add: round64_def)
next
  case False
  define e where "e = ulp_exponent (of_int z)"
  have "\<bar>of_int z :: rat\<bar> = of_int \<bar>z\<bar>" by simp
  moreover have "ilog2 (of_int \<bar>z\<bar>) \<le> 52"
    using False assms by (intro ilog2_of_int_le) auto
  ultimately have e: "e \<le> 0"
    by (simp add: e_def ulp_exponent_def)
  have p: "power_int (2::rat) e = inverse (2 ^ nat (- e))"
    using e by (cases "e = 0") (simp_all add: power_int_def power_one_over inverse_eq_divide)
  have "of_int z / power_int (2::rat) e = of_int (z * 2 ^ nat (- e))"
    by (simp add: p divide_inverse)
  then have "round_half_even (of_int z / power_int 2 e) = z * 2 ^ nat (- e)"
    by (simp only: round_half_even_of_int)
  then have "of_int (round_half_even (of_int z / power_int 2 e)) * power_int (2::rat) e
      = of_int z"
    by (simp add: p)
  with False show ?thesis
    by (simp add: round64_def Let_def e_def)
qed

lemma round64_whole:
  assumes "q \<in> \<int>" "\<bar>q\<bar> < 2 ^ 53"
  shows "round64 q = q"
proof -
  from assms(1) obtain z where z: "q = of_int z" by (auto elim: Ints_cases)
  with assms(2) have "(of_int \<bar>z\<bar> :: rat) < of_int (2 ^ 53)" by simp
  then have "\<bar>z\<bar> < 2 ^ 53" by (simp only: of_int_less_iff)
  then show ?thesis unfolding z by (rule round64_of_int)
qed

lemma wrap64_whole:
  assumes "q \<in> \<int>" "\<bar>q\<bar> < 2 ^ 53"
  shows "wrap64 q = q"
proof -
  from assms(1) obtain z where z: "q = of_int z" by (auto elim: Ints_cases)
  with assms(2) have "(of_int \<bar>z\<bar> :: rat) < of_int (2 ^ 53)" by simp
  then have "\<bar>z\<bar> < 2 ^ 53" by (simp only: of_int_less_iff)
  then have "0 \<le> z + 2 ^ 63" and "z + 2 ^ 63 < 2 ^ 64" by simp_all
  then have "(z + 2 ^ 63) mod 2 ^ 64 = z + 2 ^ 63" by (rule mod_pos_pos_trivial)
  then show ?thesis by (simp add: wrap64_def z)
qed

lemma sum_list_whole: "\<forall>x\<in>set xs. x \<in> \<int> \<Longrightarrow> sum_list xs \<in> (\<int> :: rat set)"
  by (induction xs) auto

lemma foldl_fadd_whole:
  assumes "\<forall>x\<in>set xs. x \<in> \<int>" "a \<in> \<int>" "\<bar>a\<bar> + (\<Sum>x\<leftarrow>xs. \<bar>x\<bar>) < 2 ^ 53"
  shows "foldl fadd a xs = a + sum_list xs"
  using assms
proof (induction xs arbitrary: a)
  case Nil
  then show ?case by simp
next
  case (Cons x xs)
  have n: "0 \<le> (\<Sum>x\<leftarrow>xs. \<bar>x\<bar>)" by (rule sum_list_nonneg) auto
  have w: "a + x \<in> \<int>" using Cons.prems by simp
  have b: "\<bar>a + x\<bar> + (\<Sum>x\<leftarrow>xs. \<bar>x\<bar>) < 2 ^ 53"
    using Cons.prems(3) abs_triangle_ineq [of a x] by simp
  then have "\<bar>a + x\<bar> < 2 ^ 53" using n by linarith
  with w have "fadd a x = a + x" by (simp add: fadd_def round64_whole)
  moreover have "foldl fadd (a + x) xs = a + x + sum_list xs"
    using Cons.prems(1) w b by (intro Cons.IH) auto
  ultimately show ?case by simp
qed

lemma series_sum_whole:
  assumes "\<forall>x\<in>set xs. x \<in> \<int>" "(\<Sum>x\<leftarrow>xs. \<bar>x\<bar>) < 2 ^ 53"
  shows "series_sum dt xs = sum_list xs"
proof (cases dt)
  case int64
  have "\<bar>sum_list xs\<bar> \<le> (\<Sum>x\<leftarrow>xs. \<bar>x\<bar>)" by (rule sum_list_abs)
  with assms(2) have "\<bar>sum_list xs\<bar> < 2 ^ 53" by linarith
  with assms(1) show ?thesis
    by (simp add: series_sum_def int64 wrap64_whole sum_list_whole)
next
  case float64
  have "foldl fadd 0 xs = 0 + sum_list xs"
    using assms by (intro foldl_fadd_whole) auto
  then show ?thesis by (simp add: series_sum_def float64)
qed

lemma sum_abs_filter_le:
  fixes v :: "'a \<Rightarrow> rat"
  shows "(\<Sum>x\<leftarrow>filter P xs. \<bar>v x\<bar>) \<le> (\<Sum>x\<leftarrow>xs. \<bar>v x\<bar>)"
  by (induction xs) (auto intro: order_trans)

lemma groupby_series_sum_whole:
  assumes "\<forall>r\<in>set f. v r \<in> \<int>" "(\<Sum>r\<leftarrow>f. \<bar>v r\<bar>) < 2 ^ 53"
  shows "(\<Sum>(k, g)\<leftarrow>groupby key f. series_sum dt (map v g)) = series_sum dt (map v f)"
proof -
  have "series_sum dt (map v g) = sum_list (map v g)" if "(k, g) \<in> set (groupby key f)" for k g
  proof -
    from that have g: "g = filter (\<lambda>r. key r = k) f" by (simp add: groupby_iff)
    have "(\<Sum>x\<leftarrow>map v g. \<bar>x\<bar>) \<le> (\<Sum>r\<leftarrow>f. \<bar>v r\<bar>)"
      unfolding g using sum_abs_filter_le [of v "\<lambda>r. key r = k" f] by (simp add: comp_def)
    with assms(2) have "(\<Sum>x\<leftarrow>map v g. \<bar>x\<bar>) < 2 ^ 53" by linarith
    moreover have "\<forall>x\<in>set (map v g). x \<in> \<int>" using assms(1) by (auto simp: g)
    ultimately show ?thesis by (intro series_sum_whole)
  qed
  then have "(\<Sum>(k, g)\<leftarrow>groupby key f. series_sum dt (map v g))
      = (\<Sum>(k, g)\<leftarrow>groupby key f. sum_list (map v g))"
    by (intro arg_cong [where f = sum_list] map_cong) auto
  also have "\<dots> = sum_list (map v f)" by (rule groupby_sum)
  also have "\<dots> = series_sum dt (map v f)"
    using assms by (intro series_sum_whole [symmetric]) (auto simp: comp_def)
  finally show ?thesis .
qed

lemma total_sales_whole:
  assumes "\<forall>r\<in>set f. Total_Sales r \<in> \<int>" "(\<Sum>r\<leftarrow>f. \<bar>Total_Sales r\<bar>) < 2 ^ 53"
  shows "total_sales dt f = sum_list (map Total_Sales f)"
  unfolding total_sales_def using assms by (intro series_sum_whole) (auto simp: comp_def)

lemma sales_method_total:
  assumes "\<forall>r\<in>set f. Total_Sales r \<in> \<int>" "(\<Sum>r\<leftarrow>f. \<bar>Total_Sales r\<bar>) < 2 ^ 53"
  shows "sum_list (map snd (sales_method dt f)) = total_sales dt f"
  using groupby_series_sum_whole [OF assms, of dt Sales_Method]
  by (simp add: sales_method_def total_sales_def comp_def case_prod_unfold)

lemma monthly_sales_total:
  assumes "\<forall>r\<in>set f. Total_Sales r \<in> \<int>" "(\<Sum>r\<leftarrow>f. \<bar>Total_Sales r\<bar>) < 2 ^ 53"
  shows "sum_list (map (\<lambda>(m, c, v). v) (monthly_sales dt f)) = total_sales dt f"
  using groupby_series_sum_whole [OF assms, of dt "\<lambda>r. (Month r, Sales_Method r)"]
  by (simp add: monthly_sales_def total_sales_def comp_def case_prod_unfold)

lemma product_sales_total:
  assumes "\<forall>r\<in>set f. Total_Sales r \<in> \<int>" "(\<Sum>r\<leftarrow>f. \<bar>Total_Sales r\<bar>) < 2 ^ 53"
  shows "sum_list (map (\<lambda>(p, c, v). v) (product_sales dt f)) = total_sales dt f"
  using groupby_series_sum_whole [OF assms, of dt "\<lambda>r. (Product r, Sales_Method r)"]
  by (simp add: product_sales_def total_sales_def comp_def case_prod_unfold)

text \<open>
  C2, as stated, fails in float64: each addition rounds, and the total adds the cells
  in another grouping than the per-method totals do. For the amounts 315.45, 118.9,
  722.27, with the first and third sold online, the total is the double 1156.62 and the
  per-method totals are the doubles 1037.72 and 118.9; their sum is not that total,
  whether it is taken exactly or in float64 (where it is the next double above).
\<close>

theorem sum_decomposition_counterexample:
  "filtered fp_df ex_defaults = Inr fp_df
   \<and> total_sales float64 fp_df = round64 (115662 / 100)
   \<and> sales_method float64 fp_df
       = [(''Online'', round64 (103772 / 100)), (''Outlet'', round64 (1189 / 10))]
   \<and> total_sales float64 fp_df \<noteq> sum_list (map snd (sales_method float64 fp_df))
   \<and> total_sales float64 fp_df \<noteq> series_sum float64 (map snd (sales_method float64 fp_df))"
  by code_simp

text \<open>
  C2, amended. For every filtered frame, each of the four grouped summaries has pairwise
  distinct keys; a row with a given key is in the summary if and only if some record of
  the frame has that key, and its value is then the aggregate over exactly the records
  with that key: one row per key that occurs, none for a key that does not. The groups
  of each grouping, put together, are the records of the frame, each as often as it
  occurs there: no record is lost or counted twice. When every total-sales cell of the
  frame is a whole number and the absolute values of the cells sum to less than
  \<open>2 ^ 53\<close>, no addition rounds or wraps, in either dtype, and the total sales equal
  the sum of the cells, the sum of the per-method totals, the sum of the
  per-month-and-method totals and the sum of the per-product-and-method totals.
\<close>

theorem grouping_decomposition:
  "filtered df S = Inr f \<Longrightarrow>
     distinct (map fst (sales_method dt f))
   \<and> (\<forall>k v. (k, v) \<in> set (sales_method dt f) \<longleftrightarrow>
          k \<in> Sales_Method ` set f
        \<and> v = series_sum dt (map Total_Sales (filter (\<lambda>r. Sales_Method r = k) f)))
   \<and> distinct (map (\<lambda>(m, c, v). (m, c)) (monthly_sales dt f))
   \<and> (\<forall>m c v. (m, c, v) \<in> set (monthly_sales dt f) \<longleftrightarrow>
          (m, c) \<in> (\<lambda>r. (Month r, Sales_Method r)) ` set f
        \<and> v = series_sum dt (map Total_Sales
                  (filter (\<lambda>r. (Month r, Sales_Method r) = (m, c)) f)))
   \<and> distinct (map fst (margin f))
   \<and> (\<forall>k v. (k, v) \<in> set (margin f) \<longleftrightarrow>
          k \<in> Sales_Method ` set f
        \<and> v = series_mean (map Operating_Margin (filter (\<lambda>r. Sales_Method r = k) f)))
   \<and> distinct (map (\<lambda>(p, c, v). (p, c)) (product_sales dt f))
   \<and> (\<forall>p c v. (p, c, v) \<in> set (product_sales dt f) \<longleftrightarrow>
          (p, c) \<in> (\<lambda>r. (Product r, Sales_Method r)) ` set f
        \<and> v = series_sum dt (map Total_Sales
                  (filter (\<lambda>r. (Product r, Sales_Method r) = (p, c)) f)))
   \<and> mset (concat (map snd (groupby Sales_Method f))) = mset f
   \<and> mset (concat (map snd (groupby (\<lambda>r. (Month r, Sales_Method r)) f))) = mset f
   \<and> mset (concat (map snd (groupby (\<lambda>r. (Product r, Sales_Method r)) f))) = mset f
   \<and> ((\<forall>r\<in>set f. Total_Sales r \<in> \<int>) \<and> (\<Sum>r\<leftarrow>f. \<bar>Total_Sales r\<bar>) < 2 ^ 53 \<longrightarrow>
          total_sales dt f = sum_list (map Total_Sales f)
        \<and> total_sales dt f = sum_list (map snd (sales_method dt f))
        \<and> total_sales dt f = sum_list (map (\<lambda>(m, c, v). v) (monthly_sales dt f))
        \<and> total_sales dt f = sum_list (map (\<lambda>(p, c, v). v) (product_sales dt f)))"
proof -
  have keys:
    "distinct (map fst (sales_method dt f))"
    "distinct (map (\<lambda>(m, c, v). (m, c)) (monthly_sales dt f))"
    "distinct (map fst (margin f))"
    "distinct (map (\<lambda>(p, c, v). (p, c)) (product_sales dt f))"
    by (simp_all only: sales_method_keys margin_keys monthly_sales_keys product_sales_keys
        groupby_distinct)
  have sums:
    "total_sales dt f = sum_list (map Total_Sales f)
     \<and> total_sales dt f = sum_list (map snd (sales_method dt f))
     \<and> total_sales dt f = sum_list (map (\<lambda>(m, c, v). v) (monthly_sales dt f))
     \<and> total_sales dt f = sum_list (map (\<lambda>(p, c, v). v) (product_sales dt f))"
    if "\<forall>r\<in>set f. Total_Sales r \<in> \<int>" "(\<Sum>r\<leftarrow>f. \<bar>Total_Sales r\<bar>) < 2 ^ 53"
    using that
    by (simp only: sales_method_total monthly_sales_total product_sales_total
        total_sales_whole simp_thms)
  show ?thesis
    using keys sums
    by (simp only: sales_method_iff monthly_sales_iff margin_iff product_sales_iff
        groupby_partition simp_thms) blast
qed

theorem grouping_decomposition_witness:
  "filtered ex_df ex_defaults = Inr ex_df
   \<and> Total_Sales ex_row1 \<in> \<int> \<and> Total_Sales ex_row2 \<in> \<int> \<and> Total_Sales ex_row3 \<in> \<int>
   \<and> (\<Sum>r\<leftarrow>ex_df. \<bar>Total_Sales r\<bar>) = 350 \<and> (350 :: rat) < 2 ^ 53
   \<and> total_sales float64 ex_df = 350
   \<and> sales_method float64 ex_df = [(''Online'', 300), (''Outlet'', 50)]
   \<and> total_sales float64 ex_df = sum_list (map snd (sales_method float64 ex_df))
   \<and> distinct (map fst (sales_method float64 ex_df))
   \<and> mset (concat (map snd (groupby Sales_Method ex_df))) = mset ex_df"
proof -
  have v: "filtered ex_df ex_defaults = Inr ex_df" by code_simp
  have w: "\<forall>r\<in>set ex_df. Total_Sales r \<in> \<int>"
    by (simp add: ex_df_def ex_row1_def ex_row2_def ex_row3_def)
  have b: "(\<Sum>r\<leftarrow>ex_df. \<bar>Total_Sales r\<bar>) = 350"
    by (simp add: ex_df_def ex_row1_def ex_row2_def ex_row3_def)
  have t: "total_sales float64 ex_df = 350" by code_simp
  have s: "sales_method float64 ex_df = [(''Online'', 300), (''Outlet'', 50)]" by code_simp
  show ?thesis
    using v w b t s grouping_decomposition [OF v, of float64]
    by (simp add: ex_df_def)
qed

text \<open>
  C5. The rows of the monthly summary are in strictly ascending order of month, and
  within a month in strictly ascending order of sales method. The summary is a function
  of the frame, so the same frame gives the same rows in the same order.
\<close>

theorem monthly_sales_sorted:
  "sorted_wrt (\<lambda>(m1, c1, v1) (m2, c2, v2). m1 < m2 \<or> (m1 = m2 \<and> c1 < c2))
     (monthly_sales dt f)"
proof -
  let ?gs = "groupby (\<lambda>r. (Month r, Sales_Method r)) f"
  have "sorted_wrt (<) (map fst ?gs)"
    by (rule sorted_keys)
  then have "sorted_wrt (\<lambda>x y. fst x < fst y) ?gs"
    by (simp add: sorted_wrt_map)
  then have "sorted_wrt (\<lambda>x y. case (fst x, fst y) of
               ((m1, c1), (m2, c2)) \<Rightarrow> m1 < m2 \<or> (m1 = m2 \<and> c1 < c2)) ?gs"
    by (rule sorted_wrt_mono_rel [rotated])
      (simp only: split_paired_all fst_conv prod.case pair_less_iff)
  then show ?thesis
    by (simp add: monthly_sales_def sorted_wrt_map case_prod_unfold)
qed

theorem monthly_sales_sorted_witness:
  "monthly_sales int64 ex_df =
     [(((2021, 1, 1), 0), ''Online'', 100),
      (((2021, 1, 1), 0), ''Outlet'', 50),
      (((2021, 2, 1), 0), ''Online'', 200)]
   \<and> sorted_wrt (\<lambda>(m1, c1, v1) (m2, c2, v2). m1 < m2 \<or> (m1 = m2 \<and> c1 < c2))
       (monthly_sales int64 ex_df)"
proof -
  have v: "monthly_sales int64 ex_df =
     [(((2021, 1, 1), 0), ''Online'', 100),
      (((2021, 1, 1), 0), ''Outlet'', 50),
      (((2021, 2, 1), 0), ''Online'', 200)]"
    by code_simp
  show ?thesis using v monthly_sales_sorted [of int64 ex_df] by simp
qed

subsection \<open>Sidebar options\<close>

lemma sorted_unique_strict: "sorted_wrt (<) (sort (unique xs))"
  by (simp add: strict_sorted_iff distinct_unique)

lemma fold_min_le: "x \<in> set (a # xs) \<Longrightarrow> fold min xs a \<le> (x :: 'a::linorder)"
  by (metis List.finite_set Min.set_eq_fold Min_le)

lemma fold_max_ge: "x \<in> set (a # xs) \<Longrightarrow> (x :: 'a::linorder) \<le> fold max xs a"
  by (metis List.finite_set Max.set_eq_fold Max_ge)

lemma series_min_le: "series_min xs = Some m \<Longrightarrow> x \<in> set xs \<Longrightarrow> m \<le> x"
  by (cases xs) (auto simp: series_min_def fold_min_le simp del: set_ConsD)

lemma series_max_ge: "series_max xs = Some m \<Longrightarrow> x \<in> set xs \<Longrightarrow> x \<le> m"
  by (cases xs) (auto simp: series_max_def fold_max_ge)

text \<open>
  C8, as stated, fails for the state options: the script puts the sentinel \<open>All\<close> in
  front of the sorted states. For the three-invoice data set the options are \<open>All\<close>,
  \<open>Alabama\<close>, \<open>Texas\<close>: not in ascending order, and \<open>All\<close> is not a state of any
  record.
\<close>

theorem states_counterexample:
  "states ex_df = [''All'', ''Alabama'', ''Texas'']
   \<and> \<not> sorted (states ex_df)
   \<and> ''All'' \<notin> State ` set ex_df
   \<and> states ex_df \<noteq> sort (unique (map State ex_df))"
  by code_simp

text \<open>
  C8, amended. The retailer options and the sales-method options are the values of their
  column, each once, in strictly ascending lexicographic order. The state options are
  the sentinel \<open>All\<close> followed by the values of the state column, each once, in strictly
  ascending lexicographic order.
\<close>

theorem available_values_sorted:
  "sorted_wrt (<) (retailers df) \<and> set (retailers df) = Retailer ` set df
   \<and> sorted_wrt (<) (methods df) \<and> set (methods df) = Sales_Method ` set df
   \<and> hd (states df) = ''All''
   \<and> sorted_wrt (<) (tl (states df)) \<and> set (tl (states df)) = State ` set df"
  by (simp add: retailers_def methods_def states_def sorted_unique_strict set_unique)

text \<open>
  C10, as stated, fails when the latest invoice carries a time of day. The date widget
  holds the dates of the earliest and the latest invoice; the filter compares with the
  midnight of the second date, which is before that invoice. With the last of the three
  invoices one nanosecond after midnight, the selection of everything drops it.
\<close>

theorem identity_selection_counterexample:
  "min_date td_df = Some ((2021, 1, 15), 0)
   \<and> max_date td_df = Some ((2021, 2, 10), 1)
   \<and> selected_state ex_defaults = ''All''
   \<and> selected_retailers ex_defaults = retailers td_df
   \<and> selected_methods ex_defaults = methods td_df
   \<and> date_range ex_defaults = [date_of ((2021, 1, 15), 0), date_of ((2021, 2, 10), 1)]
   \<and> filtered td_df ex_defaults = Inr [ex_row1, ex_row2]
   \<and> filtered td_df ex_defaults \<noteq> Inr td_df"
  by code_simp

text \<open>
  C10, amended. Let the selection be: state \<open>All\<close>, the retailer options of \<open>df\<close>,
  the sales-method options of \<open>df\<close>, and as the two dates the dates of the earliest and
  of the latest invoice date of \<open>df\<close> (for an empty \<open>df\<close>, which has neither, any two
  dates). If the latest invoice date is a midnight, the block returns \<open>df\<close> itself.
\<close>

theorem identity_selection:
  assumes "selected_state S = ''All''"
    and "selected_retailers S = retailers df"
    and "selected_methods S = methods df"
    and "date_range S = [s, e]"
    and "df \<noteq> [] \<longrightarrow>
           min_date df = Some mn \<and> max_date df = Some mx
         \<and> s = date_of mn \<and> e = date_of mx \<and> snd mx = 0"
  shows "filtered df S = Inr df"
proof -
  have "to_datetime s \<le> Invoice_Date r \<and> Invoice_Date r \<le> to_datetime e"
    if "r \<in> set df" for r
  proof -
    from that have "df \<noteq> []" by auto
    with assms(5) have mn: "min_date df = Some mn" and mx: "max_date df = Some mx"
      and s: "s = date_of mn" and e: "e = date_of mx" and z: "snd mx = 0"
      by simp_all
    have "to_datetime s \<le> mn"
      by (cases mn) (simp add: s to_datetime_def date_of_def)
    moreover have "mn \<le> Invoice_Date r"
      using that mn by (auto simp: min_date_def intro: series_min_le)
    moreover have "Invoice_Date r \<le> mx"
      using that mx by (auto simp: max_date_def intro: series_max_ge)
    moreover have "mx = to_datetime e"
      using z by (cases mx) (simp add: e to_datetime_def date_of_def)
    ultimately show ?thesis by (metis order_trans)
  qed
  then show ?thesis
    by (simp add: filtered_two_dates [OF assms(4)] assms(1-3) retailers_def methods_def
        set_unique)
qed

theorem identity_selection_witness:
  "selected_state ex_defaults = ''All''
   \<and> selected_retailers ex_defaults = retailers ex_df
   \<and> selected_methods ex_defaults = methods ex_df
   \<and> date_range ex_defaults = [(2021, 1, 15), (2021, 2, 10)]
   \<and> ex_df \<noteq> []
   \<and> min_date ex_df = Some ((2021, 1, 15), 0)
   \<and> max_date ex_df = Some ((2021, 2, 10), 0)
   \<and> (2021, 1, 15) = date_of ((2021, 1, 15), 0)
   \<and> (2021, 2, 10) = date_of ((2021, 2, 10), 0)
   \<and> snd (((2021, 2, 10), 0) :: timestamp) = 0
   \<and> filtered ex_df ex_defaults = Inr ex_df"
proof -
  have a: "selected_state ex_defaults = ''All''" by (simp add: ex_defaults_def)
  have b: "selected_retailers ex_defaults = retailers ex_df" by code_simp
  have c: "selected_methods ex_defaults = methods ex_df" by code_simp
  have d: "date_range ex_defaults = [(2021, 1, 15), (2021, 2, 10)]"
    by (simp add: ex_defaults_def)
  have n: "ex_df \<noteq> []" by (simp add: ex_df_def)
  have m: "min_date ex_df = Some ((2021, 1, 15), 0)
     \<and> max_date ex_df = Some ((2021, 2, 10), 0)" by code_simp
  have t: "(2021, 1, 15) = date_of ((2021, 1, 15), 0)
     \<and> (2021, 2, 10) = date_of ((2021, 2, 10), 0)" by (simp add: date_of_def)
  show ?thesis
    using a b c d n m t
      identity_selection [of ex_defaults ex_df "(2021, 1, 15)" "(2021, 2, 10)"
        "((2021, 1, 15), 0)" "((2021, 2, 10), 0)"]
    by simp
qed

subsection \<open>Loading\<close>

lemma load_data_rows:
  "load_data parse csv = Inr df \<Longrightarrow> r \<in> set df \<Longrightarrow> Month r = month_of (Invoice_Date r)"
  by (induction csv arbitrary: df)
    (auto simp: mk_row_def split: option.splits sum.splits)

text \<open>
  C9. Whenever the load succeeds, every row of the loaded frame has as its \<open>Month\<close> the
  midnight of day 1 of the year and month of its own invoice date; \<open>Month\<close> lies in
  the same calendar month as the invoice date and is a function of it.
\<close>

theorem month_is_first_of_month:
  "load_data parse csv = Inr df \<Longrightarrow> r \<in> set df \<Longrightarrow> Invoice_Date r = ((y, m, d), ns) \<Longrightarrow>
     Month r = ((y, m, 1), 0)
   \<and> to_period_M (Month r) = to_period_M (Invoice_Date r)
   \<and> Month r = month_of (Invoice_Date r)"
  by (simp add: load_data_rows month_of_def to_period_M_def to_timestamp_def)

theorem month_is_first_of_month_witness:
  "load_data ex_parse ex_csv = Inr ex_df \<and> ex_row3 \<in> set ex_df
   \<and> Invoice_Date ex_row3 = ((2021, 2, 10), 0) \<and> Month ex_row3 = ((2021, 2, 1), 0)"
proof -
  have l: "load_data ex_parse ex_csv = Inr ex_df" by code_simp
  have r: "ex_row3 \<in> set ex_df" by (simp add: ex_df_def)
  have i: "Invoice_Date ex_row3 = ((2021, 2, 10), 0)" by (simp add: ex_row3_def)
  show ?thesis using l r i month_is_first_of_month [OF l r i] by simp
qed

subsection \<open>The filter on objects\<close>

lemmas heap_defs = apply_filters_def copy_def getitem_mask_def new_frame_def

lemma apply_filters_result:
  "df < length h \<Longrightarrow> result_frame (apply_filters S df h) = filtered (h ! df) S"
  by (simp add: heap_defs filtered_def result_frame_def Let_def nth_append
      split: sum.splits)

lemma apply_filters_heap: "\<exists>new. snd (apply_filters S df h) = h @ new"
  by (simp add: heap_defs Let_def split: sum.splits)

text \<open>
  C6. The frame the block computes depends only on the rows of \<open>df\<close> and on the
  selection: run in two heaps, from two addresses, that hold the same rows for \<open>df\<close>,
  it gives equal results, whatever else the heaps hold; run a second time, in the heap
  the first run left, it gives the result of the first run; and its only effect on the
  heap is to add new objects after the existing ones.
\<close>

theorem apply_filters_pure:
  "df1 < length h1 \<Longrightarrow> df2 < length h2 \<Longrightarrow> h1 ! df1 = h2 ! df2 \<Longrightarrow>
     result_frame (apply_filters S df1 h1) = result_frame (apply_filters S df2 h2)
   \<and> result_frame (apply_filters S df1 (snd (apply_filters S df1 h1)))
       = result_frame (apply_filters S df1 h1)
   \<and> result_frame (apply_filters S df1 h1) = filtered (h1 ! df1) S
   \<and> take (length h1) (snd (apply_filters S df1 h1)) = h1"
proof -
  assume a: "df1 < length h1" and b: "df2 < length h2" and c: "h1 ! df1 = h2 ! df2"
  obtain new where n: "snd (apply_filters S df1 h1) = h1 @ new"
    using apply_filters_heap by blast
  have "result_frame (apply_filters S df1 (h1 @ new)) = filtered ((h1 @ new) ! df1) S"
    using a by (simp add: apply_filters_result)
  then show ?thesis
    using a b c n by (simp add: apply_filters_result nth_append)
qed

theorem apply_filters_pure_witness:
  "(0::nat) < length [ex_df] \<and> (1::nat) < length [[], ex_df]
   \<and> [ex_df] ! 0 = [[], ex_df] ! 1
   \<and> result_frame (apply_filters ex_outlet_january 0 [ex_df]) = Inr [ex_row2]
   \<and> result_frame (apply_filters ex_outlet_january 1 [[], ex_df]) = Inr [ex_row2]"
proof -
  have a: "(0::nat) < length [ex_df]" and b: "(1::nat) < length [[], ex_df]"
    and c: "[ex_df] ! 0 = [[], ex_df] ! 1"
    by simp_all
  have v: "result_frame (apply_filters ex_outlet_january 0 [ex_df]) = Inr [ex_row2]"
    by code_simp
  show ?thesis
    using a b c v apply_filters_pure [OF a b c, of ex_outlet_january] by simp
qed

text \<open>
  C7. The block leaves every DataFrame object that existed before it as it was, the one
  bound to \<open>df\<close> in particular: same rows, same fields. This holds also when the block
  raises.
\<close>

theorem apply_filters_frame:
  "df < length h \<Longrightarrow>
     snd (apply_filters S df h) ! df = h ! df
   \<and> (\<forall>a < length h. snd (apply_filters S df h) ! a = h ! a)"
proof -
  obtain new where n: "snd (apply_filters S df h) = h @ new"
    using apply_filters_heap by blast
  assume "df < length h"
  then show ?thesis by (simp add: n nth_append)
qed

theorem apply_filters_frame_witness:
  "(0::nat) < length [ex_df]
   \<and> snd (apply_filters ex_outlet_january 0 [ex_df]) ! 0 = ex_df
   \<and> fst (apply_filters ex_outlet_january 0 [ex_df]) = Inr 4"
proof -
  have a: "(0::nat) < length [ex_df]" by simp
  have v: "fst (apply_filters ex_outlet_january 0 [ex_df]) = Inr 4" by code_simp
  show ?thesis using a v apply_filters_frame [OF a, of ex_outlet_january] by simp
qed

end
